theory Spec2Isabelle
  imports Complex_Main "HOL-Library.Log_Nat"
begin

section \<open>Data model (models/order.go)\<close>

text \<open>
  Strings are byte lists, as Go strings are: \<open>length\<close> is Go's \<open>len\<close> and \<open>take 8\<close> is the
  slice \<open>[:8]\<close> where it is in range. A \<open>float64\<close> field is modelled by the real number it
  denotes (NaN and the infinities are left out); comparisons of such values are then the
  comparisons of the reals, while the arithmetic of \<open>float64\<close> rounds each result
  (\<open>round64\<close> below, used by \<open>ProcessOrder\<close>). Durations are in milliseconds.
  The timestamps (\<open>CreatedAt\<close>, \<open>UpdatedAt\<close>, \<open>LastUpdated\<close>) and the logger calls are
  not modelled: no decision of the code reads them.
\<close>

datatype OrderStatus =
    OrderStatusPending
  | OrderStatusValidated
  | OrderStatusProcessing
  | OrderStatusCompleted
  | OrderStatusCancelled
  | OrderStatusExpedited
  | OrderStatusFailed

record OrderItem =
  ProductID :: string
  Name :: string
  Quantity :: int
  Price :: real

record Order =
  ID :: string
  Items :: "OrderItem list"
  Amount :: real
  OrderState :: OrderStatus

record WorkflowState =
  OrderID :: string
  Status :: OrderStatus
  ValidationDone :: bool
  ProcessingDone :: bool
  PaymentDone :: bool

section \<open>Errors and activity outcomes\<close>

datatype ctx_error = Canceled | DeadlineExceeded

text \<open>
  One constructor for each error the sources build with \<open>fmt.Errorf\<close>; \<open>Wrapped m e\<close> is
  \<open>fmt.Errorf("m: %w", e)\<close>; \<open>RemoteError\<close> stands for the failures of the remote services
  and of the host engine (HTTP errors, timeouts, exhausted retries).
\<close>

datatype error =
    ContextError ctx_error
  | InvalidPaymentAmount real
  | ExceedsAuthorizationLimit
  | InvalidAuthorizationID
  | AmountMismatch real real
  | OrderCancelledByUser
  | RemoteError string
  | Wrapped string error

text \<open>A Go function returns a value, returns an error, or panics.\<close>

datatype 'a outcome = Returned 'a | Failed error | Panicked

text \<open>
  The context of one activity attempt: the attempt number of \<open>activity.GetInfo\<close>, and for
  the k-th \<open>select\<close> of the activity body whether \<open>ctx.Done()\<close> fires before the timer
  (\<open>Some e\<close>, with \<open>e\<close> the value of \<open>ctx.Err()\<close>) or the timer fires first (\<open>None\<close>).
\<close>

record ActivityContext =
  Attempt :: int
  interrupt :: "nat \<Rightarrow> ctx_error option"

section \<open>Formatting of \<open>%d\<close>\<close>

definition digit_char :: "nat \<Rightarrow> char" where
  "digit_char d = char_of (48 + d)"

fun string_of_nat :: "nat \<Rightarrow> string" where
  "string_of_nat n =
     (if n < 10 then [digit_char n]
      else string_of_nat (n div 10) @ [digit_char (n mod 10)])"

definition string_of_int :: "int \<Rightarrow> string" where
  "string_of_int i =
     (if i < 0 then CHR ''-'' # string_of_nat (nat (- i)) else string_of_nat (nat i))"

section \<open>Payment activities (activities/payment\_activities.go)\<close>

definition AuthorizePayment :: "ActivityContext \<Rightarrow> Order \<Rightarrow> string outcome" where
  "AuthorizePayment ctx order =
     (case interrupt ctx 0 of
        Some e \<Rightarrow> Failed (ContextError e)
      | None \<Rightarrow>
          if Amount order \<le> 0 then Failed (InvalidPaymentAmount (Amount order))
          else if Amount order > 9999 then Failed ExceedsAuthorizationLimit
          else if length (ID order) < 8 then Panicked
          else Returned (''AUTH-'' @ take 8 (ID order) @ ''-'' @ string_of_int (Attempt ctx)))"

definition CapturePayment :: "ActivityContext \<Rightarrow> Order \<Rightarrow> string \<Rightarrow> string outcome" where
  "CapturePayment ctx order authorizationID =
     (case interrupt ctx 0 of
        Some e \<Rightarrow> Failed (ContextError e)
      | None \<Rightarrow>
          if authorizationID = [] then Failed InvalidAuthorizationID
          else if length (ID order) < 8 then Panicked
          else Returned (''TXN-'' @ take 8 (ID order) @ ''-'' @ string_of_int (Attempt ctx)))"

definition VoidAuthorization :: "ActivityContext \<Rightarrow> string \<Rightarrow> unit outcome" where
  "VoidAuthorization ctx authorizationID =
     (case interrupt ctx 0 of
        Some e \<Rightarrow> Failed (ContextError e)
      | None \<Rightarrow> Returned ())"

section \<open>ProcessOrder (activities/order\_activities.go)\<close>

text \<open>
  The arithmetic of \<open>float64\<close> (IEEE 754 binary64, rounding to nearest, ties to even).
  \<open>round_half_even\<close> rounds a real to the nearest integer. \<open>round_binary p s\<close> rounds a
  real to \<open>p\<close> significant bits, and to a multiple of \<open>1 / 2 ^ s\<close> where that leaves
  fewer bits: it scales by \<open>2 ^ s\<close> and drops the \<open>k\<close> bits beyond the leading \<open>p\<close>.
  \<open>round64\<close> is the case of \<open>float64\<close>: 53 significant bits, subnormal spacing
  \<open>1 / 2 ^ 1074\<close>. Results of magnitude \<open>2 ^ 1024\<close> or more, which \<open>float64\<close> turns
  into an infinity, are outside the model.
\<close>

definition round_half_even :: "real \<Rightarrow> int" where
  "round_half_even y =
     (let f = \<lfloor>y\<rfloor>; r = y - of_int f
      in if r < 1 / 2 then f
         else if r > 1 / 2 then f + 1
         else if even f then f else f + 1)"

definition round_binary :: "nat \<Rightarrow> nat \<Rightarrow> real \<Rightarrow> real" where
  "round_binary p s x =
     (let X = x * 2 ^ s;
          k = nat (bitlen \<lfloor>\<bar>X\<bar>\<rfloor> - int p)
      in of_int (round_half_even (X / 2 ^ k)) * 2 ^ k / 2 ^ s)"

definition round64 :: "real \<Rightarrow> real" where
  "round64 x = round_binary 53 1074 x"





section \<open>Timeout and retry options\<close>

record RetryPolicy =
  InitialInterval :: nat
  BackoffCoefficient :: real
  MaximumInterval :: nat
  MaximumAttempts :: int

text \<open>
  \<open>workflow.WithActivityOptions\<close> replaces the activity options of a context by the
  struct it is given, so the options of a call are the struct literal of the source; a
  field the literal leaves out has Go's zero value (\<open>0\<close>, and \<open>None\<close> for the
  \<open>RetryPolicy\<close> pointer, which leaves the retry behaviour to the host engine).
\<close>

record ActivityOptions =
  StartToCloseTimeout :: nat
  HeartbeatTimeout :: nat
  RetryPolicy :: "RetryPolicy option"

record ChildWorkflowOptions =
  WorkflowID :: string
  WorkflowExecutionTimeout :: nat

datatype activity =
    ActValidateOrder
  | ActNotifyCustomer string
  | ActRollbackOrder
  | ActProcessOrder
  | ActAuthorizePayment
  | ActCapturePayment string
  | ActVoidAuthorization string

text \<open>
  What a workflow asks the host engine to run. Every activity but \<open>VoidAuthorization\<close>
  also receives the order the workflow was started with, which never changes and is left
  out of the record of the call.
\<close>

datatype call =
    ExecuteActivity ActivityOptions activity
  | ExecuteChildWorkflow ChildWorkflowOptions

section \<open>PaymentWorkflow (workflows/payment\_workflow.go)\<close>

text \<open>
  The results the activities deliver to the workflow once the host engine has run them
  under their retry policy.
\<close>

record payment_env =
  authorize_result :: "error + string"
  capture_result :: "error + string"
  void_result :: "error option"

definition paymentActivityOptions :: ActivityOptions where
  "paymentActivityOptions =
     \<lparr>StartToCloseTimeout = 20000, HeartbeatTimeout = 5000,
      RetryPolicy = Some \<lparr>InitialInterval = 1000, BackoffCoefficient = 2,
                          MaximumInterval = 10000, MaximumAttempts = 3\<rparr>\<rparr>"

definition voidCtx :: ActivityOptions where
  "voidCtx = \<lparr>StartToCloseTimeout = 10000, HeartbeatTimeout = 0, RetryPolicy = None\<rparr>"

definition PaymentWorkflow :: "payment_env \<Rightarrow> Order \<Rightarrow> call list \<times> (error + string)" where
  "PaymentWorkflow pe order =
     (case authorize_result pe of
        Inl err \<Rightarrow>
          ([ExecuteActivity paymentActivityOptions ActAuthorizePayment],
           Inl (Wrapped ''payment authorization failed'' err))
      | Inr authorizationID \<Rightarrow>
          (case capture_result pe of
             Inl err \<Rightarrow>
               (let ignored = void_result pe in
                ([ExecuteActivity paymentActivityOptions ActAuthorizePayment,
                  ExecuteActivity paymentActivityOptions (ActCapturePayment authorizationID),
                  ExecuteActivity voidCtx (ActVoidAuthorization authorizationID)],
                 Inl (Wrapped ''payment capture failed'' err)))
           | Inr transactionID \<Rightarrow>
               ([ExecuteActivity paymentActivityOptions ActAuthorizePayment,
                 ExecuteActivity paymentActivityOptions (ActCapturePayment authorizationID)],
                Inr (''Payment processed successfully. Transaction ID: '' @ transactionID))))"

section \<open>OrderWorkflow (workflows/order\_workflow.go)\<close>

subsection \<open>Shared variables and the signal listener\<close>

datatype signal = SignalCancel | SignalExpedite

text \<open>
  The variables the main sequence shares with the listener coroutine: \<open>state\<close>,
  \<open>cancelled\<close> and \<open>expedited\<close>. Two more fields only record what happened: \<open>calls\<close>
  lists the activities and child workflows started, in order, and \<open>status_log\<close> every
  value assigned to \<open>state.Status\<close>, in order, beginning with the initial one.
\<close>

record workflow =
  state :: WorkflowState
  cancelled :: bool
  expedited :: bool
  calls :: "call list"
  status_log :: "OrderStatus list"

definition set_status :: "OrderStatus \<Rightarrow> workflow \<Rightarrow> workflow" where
  "set_status s w = w\<lparr>state := (state w)\<lparr>Status := s\<rparr>, status_log := status_log w @ [s]\<rparr>"

text \<open>The two callbacks of the selector (lines 72-88).\<close>

definition receive :: "signal \<Rightarrow> workflow \<Rightarrow> workflow" where
  "receive sg w =
     (case sg of
        SignalCancel \<Rightarrow> set_status OrderStatusCancelled (w\<lparr>cancelled := True\<rparr>)
      | SignalExpedite \<Rightarrow> set_status OrderStatusExpedited (w\<lparr>expedited := True\<rparr>))"

text \<open>
  The loop of the listener (lines 71-96) on the signals that reach it while the main
  sequence is suspended: each \<open>Select\<close> takes one signal, and the loop ends after the
  first cancel. With no signal left the coroutine stays blocked in \<open>Select\<close>.
\<close>

fun listener :: "signal list \<Rightarrow> workflow \<Rightarrow> workflow" where
  "listener [] w = w"
| "listener (sg # sgs) w =
     (let w' = receive sg w in if cancelled w' then w' else listener sgs w')"

text \<open>
  The coroutines are cooperative: the listener runs only while the main sequence waits
  for the result of a call, and it has returned exactly when \<open>cancelled\<close> is set.
\<close>

definition suspend :: "signal list \<Rightarrow> workflow \<Rightarrow> workflow" where
  "suspend sgs w = (if cancelled w then w else listener sgs w)"

subsection \<open>The environment of one run\<close>

text \<open>The places where the main sequence waits (\<open>.Get\<close>), by source line.\<close>

datatype await_point =
    AwaitValidate                  \<comment> \<open>line 119\<close>
  | AwaitNotifyValidationFailed    \<comment> \<open>line 126\<close>
  | AwaitRollbackAfterValidation   \<comment> \<open>line 142\<close>
  | AwaitPayment                   \<comment> \<open>line 158\<close>
  | AwaitRollbackPaymentFailed     \<comment> \<open>line 165\<close>
  | AwaitNotifyPaymentFailed       \<comment> \<open>line 166\<close>
  | AwaitRollbackAfterPayment      \<comment> \<open>line 182\<close>
  | AwaitProcess                   \<comment> \<open>line 199\<close>
  | AwaitRollbackProcessFailed     \<comment> \<open>line 206\<close>
  | AwaitNotifyProcessFailed       \<comment> \<open>line 207\<close>
  | AwaitNotify                    \<comment> \<open>line 227\<close>

text \<open>
  Everything a run takes from outside: the error of \<open>SetQueryHandler\<close>, the version
  markers already recorded for this instance, the result each awaited call delivers, and
  the signals that arrive during each wait, in the order the selector takes them. The
  results of the rollback and notification calls are not part of it: the workflow
  discards them (the last one is only logged).
\<close>

record environment =
  query_handler_error :: "error option"
  markers :: "string \<rightharpoonup> int"
  validate_result :: "error option"
  payment_result :: "error + string"
  process_result :: "error option"
  delivered :: "await_point \<Rightarrow> signal list"

text \<open>
  Modelled from the spec: the version gate of the host engine (section 4.4), which is not
  part of the repository. The first call for a checkpoint records the target; a later
  call returns what was recorded, whatever target the code requests.
\<close>

definition GetVersion ::
  "(string \<rightharpoonup> int) \<Rightarrow> string \<Rightarrow> int \<Rightarrow> int \<Rightarrow> int \<times> (string \<rightharpoonup> int)" where
  "GetVersion ms changeID minSupported maxSupported =
     (case ms changeID of
        Some v \<Rightarrow> (v, ms)
      | None \<Rightarrow> (maxSupported, ms(changeID \<mapsto> maxSupported)))"

definition DefaultVersion :: int where
  "DefaultVersion = - 1"

subsection \<open>Options of the calls\<close>

definition activityOptions :: ActivityOptions where
  "activityOptions =
     \<lparr>StartToCloseTimeout = 30000, HeartbeatTimeout = 5000,
      RetryPolicy = Some \<lparr>InitialInterval = 1000, BackoffCoefficient = 2,
                          MaximumInterval = 10000, MaximumAttempts = 3\<rparr>\<rparr>"

definition validateCtx :: "bool \<Rightarrow> ActivityOptions" where
  "validateCtx expedited_now =
     (if expedited_now
      then \<lparr>StartToCloseTimeout = 15000, HeartbeatTimeout = 3000,
            RetryPolicy = Some \<lparr>InitialInterval = 500, BackoffCoefficient = 2,
                                MaximumInterval = 5000, MaximumAttempts = 2\<rparr>\<rparr>
      else activityOptions)"

definition rollbackCtx :: ActivityOptions where
  "rollbackCtx = \<lparr>StartToCloseTimeout = 10000, HeartbeatTimeout = 0, RetryPolicy = None\<rparr>"

definition childWorkflowOptions :: "Order \<Rightarrow> ChildWorkflowOptions" where
  "childWorkflowOptions order =
     \<lparr>WorkflowID = ''payment-'' @ ID order, WorkflowExecutionTimeout = 120000\<rparr>"

definition processCtx :: "bool \<Rightarrow> ActivityOptions" where
  "processCtx expedited_now =
     (if expedited_now
      then \<lparr>StartToCloseTimeout = 15000, HeartbeatTimeout = 3000, RetryPolicy = None\<rparr>
      else activityOptions)"

subsection \<open>The main sequence\<close>

text \<open>Start a call and wait for its result; the listener runs during the wait.\<close>

definition await :: "environment \<Rightarrow> await_point \<Rightarrow> call \<Rightarrow> workflow \<Rightarrow> workflow" where
  "await env p c w = suspend (delivered env p) (w\<lparr>calls := calls w @ [c]\<rparr>)"

definition notifyMessage :: "bool \<Rightarrow> string" where
  "notifyMessage expedited_now =
     (if expedited_now then ''Your expedited order has been processed successfully''
      else ''Your order has been processed successfully'')"

text \<open>Lines 212-234: completion and step 4.\<close>

definition step4_notify :: "environment \<Rightarrow> workflow \<Rightarrow> workflow \<times> error option" where
  "step4_notify env w =
     (let w1 = set_status OrderStatusCompleted (w\<lparr>state := (state w)\<lparr>ProcessingDone := True\<rparr>\<rparr>);
          w2 = await env AwaitNotify
                 (ExecuteActivity activityOptions (ActNotifyCustomer (notifyMessage (expedited w1)))) w1
      in (w2, None))"

text \<open>Lines 176-210: the check after payment and step 3.\<close>

definition step3_process :: "environment \<Rightarrow> workflow \<Rightarrow> workflow \<times> error option" where
  "step3_process env w =
     (if cancelled w
      then (await env AwaitRollbackAfterPayment (ExecuteActivity rollbackCtx ActRollbackOrder) w,
            Some OrderCancelledByUser)
      else
        let w1 = set_status OrderStatusProcessing w;
            w2 = await env AwaitProcess (ExecuteActivity (processCtx (expedited w1)) ActProcessOrder) w1
        in case process_result env of
             Some err \<Rightarrow>
               (let w3 = set_status OrderStatusFailed w2;
                    w4 = await env AwaitRollbackProcessFailed
                           (ExecuteActivity activityOptions ActRollbackOrder) w3;
                    w5 = await env AwaitNotifyProcessFailed
                           (ExecuteActivity activityOptions (ActNotifyCustomer ''Order processing failed'')) w4
                in (w5, Some (Wrapped ''processing failed'' err)))
           | None \<Rightarrow> step4_notify env w2)"

text \<open>Lines 136-174: the check after validation and step 2, behind the version gate.\<close>

definition step2_payment ::
  "environment \<Rightarrow> int \<Rightarrow> Order \<Rightarrow> workflow \<Rightarrow> workflow \<times> error option" where
  "step2_payment env v order w =
     (if cancelled w
      then (await env AwaitRollbackAfterValidation (ExecuteActivity rollbackCtx ActRollbackOrder) w,
            Some OrderCancelledByUser)
      else if v \<ge> 1 then
        (let w1 = await env AwaitPayment (ExecuteChildWorkflow (childWorkflowOptions order)) w
         in case payment_result env of
              Inl err \<Rightarrow>
                (let w2 = set_status OrderStatusFailed w1;
                     w3 = await env AwaitRollbackPaymentFailed
                            (ExecuteActivity activityOptions ActRollbackOrder) w2;
                     w4 = await env AwaitNotifyPaymentFailed
                            (ExecuteActivity activityOptions (ActNotifyCustomer ''Payment processing failed'')) w3
                 in (w4, Some (Wrapped ''payment failed'' err)))
            | Inr paymentResult \<Rightarrow>
                step3_process env (w1\<lparr>state := (state w1)\<lparr>PaymentDone := True\<rparr>\<rparr>))
      else step3_process env w)"

text \<open>Lines 99-134: step 1.\<close>

definition step1_validate ::
  "environment \<Rightarrow> int \<Rightarrow> Order \<Rightarrow> workflow \<Rightarrow> workflow \<times> error option" where
  "step1_validate env v order w =
     (let w1 = set_status OrderStatusPending w;
          w2 = await env AwaitValidate (ExecuteActivity (validateCtx (expedited w1)) ActValidateOrder) w1
      in case validate_result env of
           Some err \<Rightarrow>
             (let w3 = set_status OrderStatusFailed w2;
                  w4 = await env AwaitNotifyValidationFailed
                         (ExecuteActivity activityOptions (ActNotifyCustomer ''Order validation failed'')) w3
              in (w4, Some (Wrapped ''validation failed'' err)))
         | None \<Rightarrow>
             step2_payment env v order
               (set_status OrderStatusValidated (w2\<lparr>state := (state w2)\<lparr>ValidationDone := True\<rparr>\<rparr>)))"

text \<open>Lines 21-97: initialisation, query handler, version gate, start of the listener.\<close>

definition initial :: "Order \<Rightarrow> workflow" where
  "initial order =
     \<lparr>state = \<lparr>OrderID = ID order, Status = OrderStatusPending, ValidationDone = False,
                ProcessingDone = False, PaymentDone = False\<rparr>,
      cancelled = False, expedited = False, calls = [], status_log = [OrderStatusPending]\<rparr>"

definition OrderWorkflow :: "environment \<Rightarrow> Order \<Rightarrow> workflow \<times> error option" where
  "OrderWorkflow env order =
     (case query_handler_error env of
        Some err \<Rightarrow> (initial order, Some (Wrapped ''failed to set query handler'' err))
      | None \<Rightarrow>
          let v = fst (GetVersion (markers env) ''add-payment-processing'' DefaultVersion 1)
          in step1_validate env v order (initial order))"

section \<open>Notions used in the statements\<close>

text \<open>The version the gate returns in \<open>OrderWorkflow\<close> (line 45).\<close>

definition version :: "environment \<Rightarrow> int" where
  "version env = fst (GetVersion (markers env) ''add-payment-processing'' DefaultVersion 1)"

text \<open>The payment subprocess is invoked when the child workflow is among the calls.\<close>

fun is_payment_call :: "call \<Rightarrow> bool" where
  "is_payment_call (ExecuteChildWorkflow opts) = True"
| "is_payment_call (ExecuteActivity opts a) = False"

definition payment_invoked :: "workflow \<Rightarrow> bool" where
  "payment_invoked w = list_ex is_payment_call (calls w)"

text \<open>
  The listener assigns only \<open>Cancelled\<close> and \<open>Expedited\<close> to the status and the main
  sequence never assigns either, so the values the main sequence assigned are the others
  in the log.
\<close>

definition main_statuses :: "OrderStatus list \<Rightarrow> OrderStatus list" where
  "main_statuses ss = filter (\<lambda>s. s \<noteq> OrderStatusCancelled \<and> s \<noteq> OrderStatusExpedited) ss"

text \<open>
  The transition rule of the specification, in its words: the status moves forward along
  the path Pending, Validated, Processing, Completed; Cancelled and Failed can be entered
  from any other status and are never left. Assigning the value the status already has is
  not a move.
\<close>

fun path_rank :: "OrderStatus \<Rightarrow> nat option" where
  "path_rank OrderStatusPending = Some 0"
| "path_rank OrderStatusValidated = Some 1"
| "path_rank OrderStatusProcessing = Some 2"
| "path_rank OrderStatusCompleted = Some 3"
| "path_rank OrderStatusCancelled = None"
| "path_rank OrderStatusExpedited = None"
| "path_rank OrderStatusFailed = None"

definition absorbing :: "OrderStatus \<Rightarrow> bool" where
  "absorbing s = (s = OrderStatusCancelled \<or> s = OrderStatusFailed)"

definition status_move_ok :: "OrderStatus \<Rightarrow> OrderStatus \<Rightarrow> bool" where
  "status_move_ok a b =
     (a = b \<or>
      (if absorbing a then False
       else if absorbing b then True
       else (case (path_rank a, path_rank b) of
               (Some i, Some j) \<Rightarrow> i < j
             | _ \<Rightarrow> False)))"

fun status_history_ok :: "OrderStatus list \<Rightarrow> bool" where
  "status_history_ok [] = True"
| "status_history_ok [a] = True"
| "status_history_ok (a # b # rest) = (status_move_ok a b \<and> status_history_ok (b # rest))"

text \<open>
  The expedited profile of the specification, compared with the standard options of the
  workflow: shorter timeouts, shorter retry intervals and fewer attempts.
\<close>

definition expedited_profile :: "ActivityOptions \<Rightarrow> bool" where
  "expedited_profile opts =
     (StartToCloseTimeout opts < StartToCloseTimeout activityOptions
      \<and> HeartbeatTimeout opts < HeartbeatTimeout activityOptions
      \<and> (case (RetryPolicy opts, RetryPolicy activityOptions) of
            (Some p, Some std) \<Rightarrow>
              InitialInterval p < InitialInterval std
              \<and> MaximumInterval p < MaximumInterval std
              \<and> MaximumAttempts p < MaximumAttempts std
          | _ \<Rightarrow> False))"

definition shorter_timeouts :: "ActivityOptions \<Rightarrow> bool" where
  "shorter_timeouts opts =
     (StartToCloseTimeout opts < StartToCloseTimeout activityOptions
      \<and> HeartbeatTimeout opts < HeartbeatTimeout activityOptions)"





section \<open>Concrete inputs\<close>

definition ctx_first :: ActivityContext where
  "ctx_first = \<lparr>Attempt = 1, interrupt = (\<lambda>k. None)\<rparr>"

definition order_ok :: Order where
  "order_ok = \<lparr>ID = ''ORDER-123'',
     Items = [\<lparr>ProductID = ''PROD-001'', Name = ''Product 1'', Quantity = 2, Price = 500\<rparr>],
     Amount = 1000, OrderState = OrderStatusPending\<rparr>"

definition order_short_id :: Order where
  "order_short_id = \<lparr>ID = ''A-17'',
     Items = [\<lparr>ProductID = ''PROD-001'', Name = ''Product 1'', Quantity = 2, Price = 500\<rparr>],
     Amount = 1000, OrderState = OrderStatusPending\<rparr>"


definition pe_capture_fails :: payment_env where
  "pe_capture_fails = \<lparr>authorize_result = Inr ''AUTH-ORDER-12-1'',
     capture_result = Inl (RemoteError ''gateway unavailable''),
     void_result = Some (RemoteError ''void rejected'')\<rparr>"

definition env_all_ok :: environment where
  "env_all_ok = \<lparr>query_handler_error = None, markers = Map.empty, validate_result = None,
     payment_result = Inr ''Payment processed successfully. Transaction ID: TXN-ORDER-12-1'',
     process_result = None, delivered = (\<lambda>p. [])\<rparr>"

definition signal_during :: "await_point \<Rightarrow> signal \<Rightarrow> await_point \<Rightarrow> signal list" where
  "signal_during p sg q = (if q = p then [sg] else [])"

definition env_cancel_during_validate :: environment where
  "env_cancel_during_validate = env_all_ok\<lparr>delivered := signal_during AwaitValidate SignalCancel\<rparr>"

definition env_cancel_during_payment :: environment where
  "env_cancel_during_payment = env_all_ok\<lparr>delivered := signal_during AwaitPayment SignalCancel\<rparr>"

definition env_cancel_during_process :: environment where
  "env_cancel_during_process = env_all_ok\<lparr>delivered := signal_during AwaitProcess SignalCancel\<rparr>"

definition env_cancel_during_notify :: environment where
  "env_cancel_during_notify = env_all_ok\<lparr>delivered := signal_during AwaitNotify SignalCancel\<rparr>"

definition env_expedite_during_validate :: environment where
  "env_expedite_during_validate = env_all_ok\<lparr>delivered := signal_during AwaitValidate SignalExpedite\<rparr>"

definition env_validation_fails :: environment where
  "env_validation_fails =
     env_all_ok\<lparr>markers := [''add-payment-processing'' \<mapsto> 1],
                validate_result := Some (RemoteError ''order validation failed: Order amount exceeds limit'')\<rparr>"

definition env_recorded_0 :: environment where
  "env_recorded_0 = env_all_ok\<lparr>markers := [''add-payment-processing'' \<mapsto> 0]\<rparr>"




section \<open>The listener, the waits and the version gate\<close>

lemma ctx_first_simps [simp]: "interrupt ctx_first k = None" "Attempt ctx_first = 1"
  by (simp_all add: ctx_first_def)

lemma string_of_int_1: "string_of_int 1 = ''1''"
  by code_simp

lemma string_of_int_m305: "string_of_int (- 305) = ''-305''"
  by code_simp

lemma receive_calls [simp]: "calls (receive sg w) = calls w"
  by (cases sg) (simp_all add: receive_def set_status_def)

lemma listener_calls [simp]: "calls (listener sgs w) = calls w"
  by (induction sgs arbitrary: w) (simp_all add: Let_def)

lemma await_calls [simp]: "calls (await env p c w) = calls w @ [c]"
  by (simp add: await_def suspend_def)

lemma receive_cancelled: "cancelled (receive sg w) = (cancelled w \<or> sg = SignalCancel)"
  by (cases sg) (simp_all add: receive_def set_status_def)

lemma listener_cancelled:
  "cancelled (listener sgs w) = (cancelled w \<or> SignalCancel \<in> set sgs)"
  by (induction sgs arbitrary: w) (auto simp: Let_def receive_cancelled)

lemma await_cancelled [simp]:
  "cancelled (await env p c w) = (cancelled w \<or> SignalCancel \<in> set (delivered env p))"
  by (simp add: await_def suspend_def listener_cancelled)

lemma await_stopped: "cancelled w \<Longrightarrow> await env p c w = w\<lparr>calls := calls w @ [c]\<rparr>"
  by (simp add: await_def suspend_def)


lemma receive_main_statuses:
  "main_statuses (status_log (receive sg w)) = main_statuses (status_log w)"
  by (cases sg) (simp_all add: receive_def set_status_def main_statuses_def)

lemma listener_main_statuses:
  "main_statuses (status_log (listener sgs w)) = main_statuses (status_log w)"
  by (induction sgs arbitrary: w) (simp_all add: Let_def receive_main_statuses)

lemma await_main_statuses [simp]:
  "main_statuses (status_log (await env p c w)) = main_statuses (status_log w)"
  by (simp add: await_def suspend_def listener_main_statuses)

lemma set_status_simps [simp]:
  "calls (set_status s w) = calls w"
  "cancelled (set_status s w) = cancelled w"
  "expedited (set_status s w) = expedited w"
  "status_log (set_status s w) = status_log w @ [s]"
  "Status (state (set_status s w)) = s"
  by (simp_all add: set_status_def)

lemma main_statuses_append [simp]:
  "main_statuses (xs @ ys) = main_statuses xs @ main_statuses ys"
  by (simp add: main_statuses_def)

lemma main_statuses_single [simp]:
  "main_statuses [s] = (if s = OrderStatusCancelled \<or> s = OrderStatusExpedited then [] else [s])"
  by (simp add: main_statuses_def)

lemma main_statuses_initial [simp]:
  "main_statuses (status_log (initial order)) = [OrderStatusPending]"
  by (simp add: initial_def)

lemma initial_simps [simp]:
  "cancelled (initial order) = False" "expedited (initial order) = False"
  "calls (initial order) = []"
  by (simp_all add: initial_def)

lemma version_cases:
  "version env = (case markers env ''add-payment-processing'' of Some r \<Rightarrow> r | None \<Rightarrow> 1)"
  by (simp add: version_def GetVersion_def split: option.splits)

lemma OrderWorkflow_version:
  "query_handler_error env = None \<Longrightarrow>
     OrderWorkflow env order = step1_validate env (version env) order (initial order)"
  by (simp add: OrderWorkflow_def version_def)

section \<open>Cancellation\<close>

lemma step2_guard:
  "cancelled w \<Longrightarrow>
     step2_payment env v order w =
       (w\<lparr>calls := calls w @ [ExecuteActivity rollbackCtx ActRollbackOrder]\<rparr>, Some OrderCancelledByUser)"
  by (simp add: step2_payment_def await_stopped)

lemma step3_guard:
  "cancelled w \<Longrightarrow>
     step3_process env w =
       (w\<lparr>calls := calls w @ [ExecuteActivity rollbackCtx ActRollbackOrder]\<rparr>, Some OrderCancelledByUser)"
  by (simp add: step3_process_def await_stopped)

lemma step4_calls:
  "calls (fst (step4_notify env w)) =
     calls w @ [ExecuteActivity activityOptions (ActNotifyCustomer (notifyMessage (expedited w)))]"
  by (simp add: step4_notify_def Let_def)

lemma run_cancel_during_validate:
  assumes "query_handler_error env = None" "validate_result env = None"
    "SignalCancel \<in> set (delivered env AwaitValidate)"
  shows "calls (fst (OrderWorkflow env order)) =
           [ExecuteActivity activityOptions ActValidateOrder, ExecuteActivity rollbackCtx ActRollbackOrder]"
    and "snd (OrderWorkflow env order) = Some OrderCancelledByUser"
    and "Status (state (fst (OrderWorkflow env order))) = OrderStatusValidated"
  using assms
  by (simp_all add: OrderWorkflow_version step1_validate_def step2_guard Let_def validateCtx_def)

lemma run_cancel_during_payment:
  assumes "query_handler_error env = None" "validate_result env = None"
    "SignalCancel \<notin> set (delivered env AwaitValidate)" "version env \<ge> 1"
    "payment_result env = Inr r" "SignalCancel \<in> set (delivered env AwaitPayment)"
  shows "calls (fst (OrderWorkflow env order)) =
           [ExecuteActivity activityOptions ActValidateOrder,
            ExecuteChildWorkflow (childWorkflowOptions order),
            ExecuteActivity rollbackCtx ActRollbackOrder]"
    and "snd (OrderWorkflow env order) = Some OrderCancelledByUser"
  using assms
  by (simp_all add: OrderWorkflow_version step1_validate_def step2_payment_def step3_guard
      Let_def validateCtx_def)

text \<open>
  C1. The claim: when a cancel signal is consumed before the validate step completes and
  validation succeeds, the run ends with a cancellation failure, \<open>RollbackOrder\<close> is
  invoked exactly once and the final status is Cancelled. In the run below the cancel
  arrives during the wait for \<open>ValidateOrder\<close>: the run does return the cancellation
  error after one rollback, but line 132 has overwritten the status the listener set, and
  the final status is Validated.
\<close>

theorem cancel_during_validate_ends_validated:
  "validate_result env_cancel_during_validate = None
   \<and> delivered env_cancel_during_validate AwaitValidate = [SignalCancel]
   \<and> snd (OrderWorkflow env_cancel_during_validate order_ok) = Some OrderCancelledByUser
   \<and> calls (fst (OrderWorkflow env_cancel_during_validate order_ok)) =
       [ExecuteActivity activityOptions ActValidateOrder, ExecuteActivity rollbackCtx ActRollbackOrder]
   \<and> status_log (fst (OrderWorkflow env_cancel_during_validate order_ok)) =
       [OrderStatusPending, OrderStatusPending, OrderStatusCancelled, OrderStatusValidated]
   \<and> Status (state (fst (OrderWorkflow env_cancel_during_validate order_ok))) = OrderStatusValidated"
  by (simp add: OrderWorkflow_def env_cancel_during_validate_def env_all_ok_def signal_during_def
      step1_validate_def step2_payment_def await_def suspend_def receive_def set_status_def
      initial_def validateCtx_def Let_def)

text \<open>
  C2 as amended. The payment step and the process step are each guarded by a read of the
  cancellation flag immediately before they start: with the flag set, the step's task is
  not started, \<open>RollbackOrder\<close> is started instead and the run returns the cancellation
  error; in whole runs this is the case of a cancel consumed during the preceding wait.
  The notify step is started whatever the flag is.
\<close>

theorem cancel_guards_payment_and_process:
  "(cancelled w \<longrightarrow>
      step2_payment env v order w =
        (w\<lparr>calls := calls w @ [ExecuteActivity rollbackCtx ActRollbackOrder]\<rparr>, Some OrderCancelledByUser))
   \<and> (cancelled w \<longrightarrow>
      step3_process env w =
        (w\<lparr>calls := calls w @ [ExecuteActivity rollbackCtx ActRollbackOrder]\<rparr>, Some OrderCancelledByUser))
   \<and> (query_handler_error env = None \<and> validate_result env = None
        \<and> SignalCancel \<in> set (delivered env AwaitValidate) \<longrightarrow>
      calls (fst (OrderWorkflow env order)) =
        [ExecuteActivity activityOptions ActValidateOrder, ExecuteActivity rollbackCtx ActRollbackOrder])
   \<and> (query_handler_error env = None \<and> validate_result env = None
        \<and> SignalCancel \<notin> set (delivered env AwaitValidate) \<and> version env \<ge> 1
        \<and> \<not> isl (payment_result env) \<and> SignalCancel \<in> set (delivered env AwaitPayment) \<longrightarrow>
      calls (fst (OrderWorkflow env order)) =
        [ExecuteActivity activityOptions ActValidateOrder,
         ExecuteChildWorkflow (childWorkflowOptions order),
         ExecuteActivity rollbackCtx ActRollbackOrder])
   \<and> calls (fst (step4_notify env w)) =
        calls w @ [ExecuteActivity activityOptions (ActNotifyCustomer (notifyMessage (expedited w)))]"
proof -
  have "\<not> isl (payment_result env) \<Longrightarrow> \<exists>r. payment_result env = Inr r"
    by (cases "payment_result env") simp_all
  then show ?thesis
    using step2_guard [of w env v order] step3_guard [of w env]
      run_cancel_during_validate(1) [of env order] run_cancel_during_payment(1) [of env _ order]
      step4_calls [of env w]
    by blast
qed

theorem cancel_guards_payment_and_process_witness:
  "calls (fst (OrderWorkflow env_cancel_during_validate order_ok)) =
     [ExecuteActivity activityOptions ActValidateOrder, ExecuteActivity rollbackCtx ActRollbackOrder]
   \<and> calls (fst (OrderWorkflow env_cancel_during_payment order_ok)) =
     [ExecuteActivity activityOptions ActValidateOrder,
      ExecuteChildWorkflow (childWorkflowOptions order_ok),
      ExecuteActivity rollbackCtx ActRollbackOrder]"
  using cancel_guards_payment_and_process [of "initial order_ok" env_cancel_during_validate 1 order_ok]
    cancel_guards_payment_and_process [of "initial order_ok" env_cancel_during_payment 1 order_ok]
  by (simp add: env_cancel_during_validate_def env_cancel_during_payment_def env_all_ok_def
      signal_during_def version_cases)

text \<open>
  The claim as stated also covers the notify step. In the run below the cancel is
  consumed during the wait for \<open>ProcessOrder\<close> and nothing arrives later, so the flag is
  set when the notify step starts; \<open>NotifyCustomer\<close> is invoked all the same and the run
  succeeds.
\<close>

theorem notify_not_guarded_counterexample:
  "delivered env_cancel_during_process AwaitProcess = [SignalCancel]
   \<and> delivered env_cancel_during_process AwaitNotify = []
   \<and> cancelled (fst (OrderWorkflow env_cancel_during_process order_ok))
   \<and> snd (OrderWorkflow env_cancel_during_process order_ok) = None
   \<and> calls (fst (OrderWorkflow env_cancel_during_process order_ok)) =
       [ExecuteActivity activityOptions ActValidateOrder,
        ExecuteChildWorkflow (childWorkflowOptions order_ok),
        ExecuteActivity activityOptions ActProcessOrder,
        ExecuteActivity activityOptions (ActNotifyCustomer ''Your order has been processed successfully'')]"
  by (simp add: OrderWorkflow_def env_cancel_during_process_def env_all_ok_def signal_during_def
      step1_validate_def step2_payment_def step3_process_def step4_notify_def
      await_def suspend_def receive_def set_status_def GetVersion_def DefaultVersion_def
      initial_def validateCtx_def processCtx_def notifyMessage_def Let_def)

text \<open>
  C4. The claim: once the status is Completed, a cancel consumed afterwards leaves the
  final status Completed. In the run below the cancel arrives during the wait for the
  final \<open>NotifyCustomer\<close>: no rollback or other activity follows and the run succeeds, but
  the listener assigns Cancelled and that is the final status.
\<close>

theorem cancel_during_notify_ends_cancelled:
  "delivered env_cancel_during_notify AwaitNotify = [SignalCancel]
   \<and> snd (OrderWorkflow env_cancel_during_notify order_ok) = None
   \<and> calls (fst (OrderWorkflow env_cancel_during_notify order_ok)) =
       [ExecuteActivity activityOptions ActValidateOrder,
        ExecuteChildWorkflow (childWorkflowOptions order_ok),
        ExecuteActivity activityOptions ActProcessOrder,
        ExecuteActivity activityOptions (ActNotifyCustomer ''Your order has been processed successfully'')]
   \<and> status_log (fst (OrderWorkflow env_cancel_during_notify order_ok)) =
       [OrderStatusPending, OrderStatusPending, OrderStatusValidated, OrderStatusProcessing,
        OrderStatusCompleted, OrderStatusCancelled]
   \<and> Status (state (fst (OrderWorkflow env_cancel_during_notify order_ok))) = OrderStatusCancelled"
  by (simp add: OrderWorkflow_def env_cancel_during_notify_def env_all_ok_def signal_during_def
      step1_validate_def step2_payment_def step3_process_def step4_notify_def
      await_def suspend_def receive_def set_status_def GetVersion_def DefaultVersion_def
      initial_def validateCtx_def processCtx_def notifyMessage_def Let_def)

section \<open>Status transitions\<close>

lemma step4_main_statuses:
  "main_statuses (status_log (fst (step4_notify env w))) =
     main_statuses (status_log w) @ [OrderStatusCompleted]"
  by (simp add: step4_notify_def Let_def)

lemma step3_main_statuses:
  "main_statuses (status_log (fst (step3_process env w))) =
     main_statuses (status_log w) @
       (if cancelled w then []
        else if process_result env = None then [OrderStatusProcessing, OrderStatusCompleted]
        else [OrderStatusProcessing, OrderStatusFailed])"
  by (simp add: step3_process_def step4_main_statuses Let_def split: option.splits)

lemma step2_main_statuses:
  "main_statuses (status_log (fst (step2_payment env v order w))) =
     main_statuses (status_log w) @
       (if cancelled w then []
        else if v \<ge> 1 \<and> isl (payment_result env) then [OrderStatusFailed]
        else if v \<ge> 1 \<and> SignalCancel \<in> set (delivered env AwaitPayment) then []
        else if process_result env = None then [OrderStatusProcessing, OrderStatusCompleted]
        else [OrderStatusProcessing, OrderStatusFailed])"
  by (simp add: step2_payment_def step3_main_statuses Let_def split: sum.splits)

lemma step1_main_statuses:
  "main_statuses (status_log (fst (step1_validate env v order w))) =
     main_statuses (status_log w) @ OrderStatusPending #
       (if validate_result env \<noteq> None then [OrderStatusFailed]
        else OrderStatusValidated #
          (if cancelled w \<or> SignalCancel \<in> set (delivered env AwaitValidate) then []
           else if v \<ge> 1 \<and> isl (payment_result env) then [OrderStatusFailed]
           else if v \<ge> 1 \<and> SignalCancel \<in> set (delivered env AwaitPayment) then []
           else if process_result env = None then [OrderStatusProcessing, OrderStatusCompleted]
           else [OrderStatusProcessing, OrderStatusFailed]))"
  by (simp add: step1_validate_def step2_main_statuses Let_def split: option.splits)

lemma main_statuses_history_ok:
  "status_history_ok (main_statuses (status_log (fst (OrderWorkflow env order))))"
proof (cases "query_handler_error env")
  case (Some err)
  then show ?thesis by (simp add: OrderWorkflow_def)
next
  case None
  then show ?thesis
    by (simp add: OrderWorkflow_version step1_main_statuses status_move_ok_def absorbing_def)
qed

lemma receive_status_log:
  "\<exists>rest. status_log (receive sg w) = status_log w @ rest"
  by (cases sg) (simp_all add: receive_def set_status_def)

lemma listener_status_log:
  "\<exists>rest. status_log (listener sgs w) = status_log w @ rest"
proof (induction sgs arbitrary: w)
  case Nil
  then show ?case by simp
next
  case (Cons sg sgs)
  obtain r1 where r1: "status_log (receive sg w) = status_log w @ r1"
    using receive_status_log by blast
  obtain r2 where r2: "status_log (listener sgs (receive sg w)) = status_log (receive sg w) @ r2"
    using Cons.IH by blast
  show ?case by (simp add: Let_def r1 r2)
qed

lemma await_status_log:
  "\<exists>rest. status_log (await env p c w) = status_log w @ rest"
  using listener_status_log [of "delivered env p" "w\<lparr>calls := calls w @ [c]\<rparr>"]
  by (simp add: await_def suspend_def)

lemma await_keeps_prefix:
  assumes "take (length xs) (status_log w) = xs"
  shows "take (length xs) (status_log (await env p c w)) = xs"
proof -
  obtain rest where r: "status_log (await env p c w) = status_log w @ rest"
    using await_status_log by blast
  have "length xs \<le> length (status_log w)"
    using arg_cong [OF assms, of length] by simp
  then show ?thesis using assms by (simp add: r)
qed

lemma set_status_keeps_prefix:
  assumes "take (length xs) (status_log w) = xs"
  shows "take (length xs) (status_log (set_status s w)) = xs"
proof -
  have "length xs \<le> length (status_log w)"
    using arg_cong [OF assms, of length] by simp
  then show ?thesis using assms by simp
qed

lemma step4_keeps_prefix:
  assumes "take (length xs) (status_log w) = xs"
  shows "take (length xs) (status_log (fst (step4_notify env w))) = xs"
  unfolding step4_notify_def Let_def fst_conv
  by (intro await_keeps_prefix set_status_keeps_prefix) (simp add: assms)

lemma step3_keeps_prefix:
  assumes "take (length xs) (status_log w) = xs"
  shows "take (length xs) (status_log (fst (step3_process env w))) = xs"
proof (cases "cancelled w")
  case True
  then show ?thesis
    by (simp add: step3_process_def await_keeps_prefix assms)
next
  case False
  show ?thesis
  proof (cases "process_result env")
    case None
    with False show ?thesis
      by (simp add: step3_process_def Let_def)
         (intro step4_keeps_prefix await_keeps_prefix set_status_keeps_prefix assms)
  next
    case (Some err)
    with False show ?thesis
      by (simp add: step3_process_def Let_def)
         (intro await_keeps_prefix set_status_keeps_prefix assms)
  qed
qed

lemma step2_keeps_prefix:
  assumes "take (length xs) (status_log w) = xs"
  shows "take (length xs) (status_log (fst (step2_payment env v order w))) = xs"
proof (cases "cancelled w")
  case True
  then show ?thesis
    by (simp add: step2_payment_def await_keeps_prefix assms)
next
  case False
  show ?thesis
  proof (cases "v \<ge> 1")
    case v: True
    show ?thesis
    proof (cases "payment_result env")
      case (Inl err)
      with False v show ?thesis
        by (simp add: step2_payment_def Let_def)
           (intro await_keeps_prefix set_status_keeps_prefix assms)
    next
      case (Inr r)
      have "take (length xs) (status_log (await env AwaitPayment
              (ExecuteChildWorkflow (childWorkflowOptions order)) w)) = xs"
        by (intro await_keeps_prefix assms)
      then show ?thesis
        using False v Inr by (simp add: step2_payment_def Let_def step3_keeps_prefix)
    qed
  next
    case v: False
    with False show ?thesis
      by (simp add: step2_payment_def step3_keeps_prefix assms)
  qed
qed

lemma expedite_during_validation:
  assumes "query_handler_error env = None" "validate_result env = None"
    "delivered env AwaitValidate = [SignalExpedite]"
  shows "take 4 (status_log (fst (OrderWorkflow env order))) =
           [OrderStatusPending, OrderStatusPending, OrderStatusExpedited, OrderStatusValidated]"
proof -
  let ?w1 = "await env AwaitValidate (ExecuteActivity (validateCtx False) ActValidateOrder)
               (set_status OrderStatusPending (initial order))"
  let ?w2 = "set_status OrderStatusValidated (?w1\<lparr>state := (state ?w1)\<lparr>ValidationDone := True\<rparr>\<rparr>)"
  have run: "OrderWorkflow env order = step2_payment env (version env) order ?w2"
    using assms(1,2) by (simp add: OrderWorkflow_version step1_validate_def Let_def)
  have "status_log ?w2 =
          [OrderStatusPending, OrderStatusPending, OrderStatusExpedited, OrderStatusValidated]"
    using assms(3)
    by (simp add: await_def suspend_def receive_def set_status_def initial_def Let_def)
  then have "take (length [OrderStatusPending, OrderStatusPending, OrderStatusExpedited,
                           OrderStatusValidated]) (status_log ?w2) =
          [OrderStatusPending, OrderStatusPending, OrderStatusExpedited, OrderStatusValidated]"
    by simp
  from step2_keeps_prefix [OF this, of env "version env" order] show ?thesis
    unfolding run by (simp add: numeral_eq_Suc)
qed

text \<open>
  C3 as amended. In every run the values the main step sequence assigns to the status
  only move forward along the path Pending, Validated, Processing, Completed, and Failed,
  when the main sequence assigns it, is its last assignment. The status also takes the
  value Expedited, which is not on that path: whenever an expedite signal is consumed
  while validation is in flight and validation succeeds, the status goes from Pending to
  Expedited and then to Validated.
\<close>

theorem status_assignments_of_main_sequence_and_expedite:
  "status_history_ok (main_statuses (status_log (fst (OrderWorkflow env order))))
   \<and> (query_handler_error env = None \<and> validate_result env = None
        \<and> delivered env AwaitValidate = [SignalExpedite] \<longrightarrow>
      take 4 (status_log (fst (OrderWorkflow env order))) =
        [OrderStatusPending, OrderStatusPending, OrderStatusExpedited, OrderStatusValidated])"
  using main_statuses_history_ok [of env order] expedite_during_validation [of env order]
  by blast

theorem status_assignments_of_main_sequence_and_expedite_witness:
  "query_handler_error env_expedite_during_validate = None
   \<and> validate_result env_expedite_during_validate = None
   \<and> delivered env_expedite_during_validate AwaitValidate = [SignalExpedite]
   \<and> status_history_ok
        (main_statuses (status_log (fst (OrderWorkflow env_expedite_during_validate order_ok))))
   \<and> take 4 (status_log (fst (OrderWorkflow env_expedite_during_validate order_ok))) =
        [OrderStatusPending, OrderStatusPending, OrderStatusExpedited, OrderStatusValidated]"
proof -
  have h: "query_handler_error env_expedite_during_validate = None"
    "validate_result env_expedite_during_validate = None"
    "delivered env_expedite_during_validate AwaitValidate = [SignalExpedite]"
    by (simp_all add: env_expedite_during_validate_def env_all_ok_def signal_during_def)
  show ?thesis
    using h status_assignments_of_main_sequence_and_expedite
      [of env_expedite_during_validate order_ok]
    by simp
qed

text \<open>
  The claim as stated lets the status move only along the path or into Cancelled or
  Failed. In the run below an expedite signal is consumed during validation: the status
  becomes Expedited, which is not on the path, and then Validated.
\<close>

theorem status_not_monotone_counterexample:
  "status_log (fst (OrderWorkflow env_expedite_during_validate order_ok)) =
     [OrderStatusPending, OrderStatusPending, OrderStatusExpedited, OrderStatusValidated,
      OrderStatusProcessing, OrderStatusCompleted]
   \<and> \<not> status_history_ok (status_log (fst (OrderWorkflow env_expedite_during_validate order_ok)))"
  by (simp add: OrderWorkflow_def env_expedite_during_validate_def env_all_ok_def signal_during_def
      step1_validate_def step2_payment_def step3_process_def step4_notify_def
      await_def suspend_def receive_def set_status_def GetVersion_def DefaultVersion_def
      initial_def validateCtx_def processCtx_def notifyMessage_def Let_def
      status_move_ok_def absorbing_def)

section \<open>The version gate\<close>

lemma payment_invoked_append [simp]:
  "payment_invoked (w\<lparr>calls := cs\<rparr>) = list_ex is_payment_call cs"
  by (simp add: payment_invoked_def)

lemma step4_payment_invoked:
  "payment_invoked (fst (step4_notify env w)) = payment_invoked w"
  by (simp add: step4_notify_def payment_invoked_def Let_def)

lemma step3_payment_invoked:
  "payment_invoked (fst (step3_process env w)) = payment_invoked w"
  by (simp add: step3_process_def step4_payment_invoked Let_def split: option.splits)
     (simp add: payment_invoked_def)

lemma step2_payment_invoked:
  "payment_invoked (fst (step2_payment env v order w)) =
     (payment_invoked w \<or> (\<not> cancelled w \<and> v \<ge> 1))"
  by (simp add: step2_payment_def step3_payment_invoked Let_def split: sum.splits)
     (auto simp add: payment_invoked_def)

lemma step1_payment_invoked:
  "payment_invoked (fst (step1_validate env v order w)) =
     (payment_invoked w \<or>
      (validate_result env = None \<and> \<not> cancelled w
       \<and> SignalCancel \<notin> set (delivered env AwaitValidate) \<and> v \<ge> 1))"
  by (simp add: step1_validate_def step2_payment_invoked Let_def split: option.splits)
     (auto simp add: payment_invoked_def)

text \<open>
  C5 as amended. The payment subprocess is invoked exactly when the version recorded for
  the checkpoint (the target 1 when nothing was recorded before) is at least 1, the query
  handler is set, validation succeeds and no cancel is consumed during validation. An
  instance recorded at 0 never invokes it, although the code requests the target 1.
\<close>

theorem payment_invoked_iff:
  "payment_invoked (fst (OrderWorkflow env order)) =
     (query_handler_error env = None \<and> validate_result env = None
      \<and> SignalCancel \<notin> set (delivered env AwaitValidate)
      \<and> (case markers env ''add-payment-processing'' of Some recorded \<Rightarrow> recorded | None \<Rightarrow> 1) \<ge> 1)"
proof (cases "query_handler_error env")
  case (Some err)
  then show ?thesis by (simp add: OrderWorkflow_def payment_invoked_def initial_def)
next
  case None
  then show ?thesis
    by (simp add: OrderWorkflow_version step1_payment_invoked version_cases)
       (auto simp add: payment_invoked_def)
qed

theorem payment_invoked_iff_witness:
  "payment_invoked (fst (OrderWorkflow env_all_ok order_ok))
   \<and> \<not> payment_invoked (fst (OrderWorkflow env_recorded_0 order_ok))"
  using payment_invoked_iff [of env_all_ok order_ok] payment_invoked_iff [of env_recorded_0 order_ok]
  by (simp add: env_all_ok_def env_recorded_0_def)

text \<open>
  The claim as stated says an instance recorded at 1 always invokes the subprocess. When
  validation fails it does not.
\<close>

theorem payment_not_always_invoked_counterexample:
  "markers env_validation_fails ''add-payment-processing'' = Some 1
   \<and> \<not> payment_invoked (fst (OrderWorkflow env_validation_fails order_ok))"
  by (simp add: OrderWorkflow_def env_validation_fails_def env_all_ok_def
      step1_validate_def await_def suspend_def set_status_def GetVersion_def DefaultVersion_def
      initial_def validateCtx_def Let_def payment_invoked_def)

section \<open>The payment subprocess\<close>

text \<open>
  C6. In \<open>PaymentWorkflow\<close>, when \<open>AuthorizePayment\<close> succeeds and \<open>CapturePayment\<close>
  then fails, the workflow starts \<open>VoidAuthorization\<close> with the authorization id it
  obtained, the result of that void attempt has no influence on what the workflow returns,
  and the error returned wraps the capture failure.
\<close>

theorem PaymentWorkflow_voids_after_capture_failure:
  assumes "authorize_result pe = Inr authorizationID" and "capture_result pe = Inl err"
  shows "fst (PaymentWorkflow pe order) =
           [ExecuteActivity paymentActivityOptions ActAuthorizePayment,
            ExecuteActivity paymentActivityOptions (ActCapturePayment authorizationID),
            ExecuteActivity voidCtx (ActVoidAuthorization authorizationID)]
       \<and> snd (PaymentWorkflow pe order) = Inl (Wrapped ''payment capture failed'' err)
       \<and> PaymentWorkflow (pe\<lparr>void_result := vr\<rparr>) order = PaymentWorkflow pe order"
  using assms by (simp add: PaymentWorkflow_def)

theorem PaymentWorkflow_voids_after_capture_failure_witness:
  "authorize_result pe_capture_fails = Inr ''AUTH-ORDER-12-1''
   \<and> capture_result pe_capture_fails = Inl (RemoteError ''gateway unavailable'')
   \<and> fst (PaymentWorkflow pe_capture_fails order_ok) =
           [ExecuteActivity paymentActivityOptions ActAuthorizePayment,
            ExecuteActivity paymentActivityOptions (ActCapturePayment ''AUTH-ORDER-12-1''),
            ExecuteActivity voidCtx (ActVoidAuthorization ''AUTH-ORDER-12-1'')]
   \<and> snd (PaymentWorkflow pe_capture_fails order_ok) =
           Inl (Wrapped ''payment capture failed'' (RemoteError ''gateway unavailable''))
   \<and> PaymentWorkflow (pe_capture_fails\<lparr>void_result := None\<rparr>) order_ok =
       PaymentWorkflow pe_capture_fails order_ok"
proof -
  have a: "authorize_result pe_capture_fails = Inr ''AUTH-ORDER-12-1''"
    by (simp add: pe_capture_fails_def)
  have c: "capture_result pe_capture_fails = Inl (RemoteError ''gateway unavailable'')"
    by (simp add: pe_capture_fails_def)
  show ?thesis
    using a c PaymentWorkflow_voids_after_capture_failure [OF a c, of order_ok None] by simp
qed

section \<open>Identifiers built by the payment activities\<close>

text \<open>
  C10. When the wait is not interrupted, \<open>AuthorizePayment\<close> (for an amount in
  \<open>(0, 9999]\<close>) and \<open>CapturePayment\<close> (for a non-empty authorization id) build their
  result from the slice \<open>order.ID[:8]\<close>: for an identifier shorter than 8 bytes they panic
  instead of returning a value or an error, and for a longer one they return the id built
  from its first 8 bytes.
\<close>

theorem payment_ids_slice_order_id:
  assumes "interrupt ctx 0 = None"
  shows "(0 < Amount order \<and> Amount order \<le> 9999 \<longrightarrow>
            AuthorizePayment ctx order =
              (if length (ID order) < 8 then Panicked
               else Returned (''AUTH-'' @ take 8 (ID order) @ ''-'' @ string_of_int (Attempt ctx))))
       \<and> (authorizationID \<noteq> [] \<longrightarrow>
            CapturePayment ctx order authorizationID =
              (if length (ID order) < 8 then Panicked
               else Returned (''TXN-'' @ take 8 (ID order) @ ''-'' @ string_of_int (Attempt ctx))))"
  using assms by (simp add: AuthorizePayment_def CapturePayment_def)

theorem payment_ids_slice_order_id_witness:
  "interrupt ctx_first 0 = None \<and> 0 < Amount order_short_id \<and> Amount order_short_id \<le> 9999
   \<and> length (ID order_short_id) < 8
   \<and> AuthorizePayment ctx_first order_short_id = Panicked
   \<and> CapturePayment ctx_first order_short_id ''AUTH-1'' = Panicked"
proof -
  have i: "interrupt ctx_first 0 = None" by (simp add: ctx_first_def)
  show ?thesis
    using i payment_ids_slice_order_id [OF i, of order_short_id "''AUTH-1''"]
    by (simp add: order_short_id_def)
qed

text \<open>
  C7. The claim promises a non-empty authorization id for every order with
  \<open>0 < amount \<le> 9999\<close>. For the order \<open>order_short_id\<close>, with amount 1000 and the
  identifier \<open>A-17\<close>, an uninterrupted \<open>AuthorizePayment\<close> panics.
\<close>

theorem AuthorizePayment_panics_on_short_id:
  "0 < Amount order_short_id \<and> Amount order_short_id \<le> 9999
   \<and> interrupt ctx_first 0 = None
   \<and> AuthorizePayment ctx_first order_short_id = Panicked"
  by (simp add: AuthorizePayment_def order_short_id_def ctx_first_def)

text \<open>
  The rest of that contract holds: an amount outside \<open>(0, 9999]\<close> is always refused, and
  an authorization id that is returned is non-empty and differs from every transaction id
  \<open>CapturePayment\<close> returns for the same order.
\<close>

lemma AuthorizePayment_rejects_amount:
  "Amount order \<le> 0 \<or> Amount order > 9999 \<Longrightarrow> \<exists>e. AuthorizePayment ctx order = Failed e"
  by (auto simp: AuthorizePayment_def split: option.splits)

lemma AuthorizePayment_id_distinct:
  assumes "AuthorizePayment ctx order = Returned authorizationID"
    and "CapturePayment ctx' order a = Returned transactionID"
  shows "authorizationID \<noteq> [] \<and> authorizationID \<noteq> transactionID"
  using assms
  by (auto simp: AuthorizePayment_def CapturePayment_def split: option.splits if_splits)

section \<open>The process step\<close>

subsection \<open>Rounding\<close>


lemma round_half_even_zero [simp]: "round_half_even 0 = 0"
  by (simp add: round_half_even_def)





lemma round64_zero [simp]: "round64 0 = 0"
  by (simp add: round64_def round_binary_def)


subsection \<open>The values the concrete orders compute with\<close>









subsection \<open>The activity and the workflow\<close>








section \<open>Expedited options\<close>

text \<open>
  The options of a step are chosen from the expedite flag as it is when the step starts,
  whatever arrives while the step is in flight. The validate step of a run always starts
  with the flag unset, hence under the standard options: no signal is consumed before
  the first wait.
\<close>

lemma step1_first_call:
  "take (Suc (length (calls w))) (calls (fst (step1_validate env v order w))) =
     calls w @ [ExecuteActivity (validateCtx (expedited w)) ActValidateOrder]"
  by (simp add: step1_validate_def step2_payment_def step3_process_def step4_notify_def Let_def
      split: option.splits sum.splits)

lemma step3_first_call:
  "\<not> cancelled w \<Longrightarrow>
     take (Suc (length (calls w))) (calls (fst (step3_process env w))) =
       calls w @ [ExecuteActivity (processCtx (expedited w)) ActProcessOrder]"
  by (simp add: step3_process_def step4_notify_def Let_def split: option.splits)

lemma step2_first_call:
  "\<not> cancelled w \<Longrightarrow> v \<ge> 1 \<Longrightarrow>
     take (Suc (length (calls w))) (calls (fst (step2_payment env v order w))) =
       calls w @ [ExecuteChildWorkflow (childWorkflowOptions order)]"
  by (simp add: step2_payment_def step3_process_def step4_notify_def Let_def
      split: option.splits sum.splits)

lemma profiles:
  "expedited_profile (validateCtx True)" "validateCtx False = activityOptions"
  "shorter_timeouts (processCtx True)" "processCtx False = activityOptions"
  by (simp_all add: expedited_profile_def shorter_timeouts_def validateCtx_def processCtx_def
      activityOptions_def)

lemma run_starts_with_standard_validate:
  assumes "query_handler_error env = None"
  shows "take 1 (calls (fst (OrderWorkflow env order))) =
           [ExecuteActivity activityOptions ActValidateOrder]"
  using step1_first_call [of "initial order" env "version env" order] assms
  by (simp add: OrderWorkflow_version validateCtx_def)

text \<open>
  C9. The claim: a step that starts with the expedite flag set runs under the expedited
  profile, with shorter timeouts and fewer maximum attempts than the standard profile.
  In the run below the expedite signal is consumed during validation, so the flag is set
  when the process step starts. The options of \<open>ProcessOrder\<close> (lines 193-196) have the
  shorter timeouts but no retry policy at all, unlike the expedited options of the
  validate step (lines 107-116): no smaller number of attempts is configured.
\<close>

theorem expedited_process_step_has_no_retry_policy:
  "delivered env_expedite_during_validate AwaitValidate = [SignalExpedite]
   \<and> expedited (fst (OrderWorkflow env_expedite_during_validate order_ok))
   \<and> calls (fst (OrderWorkflow env_expedite_during_validate order_ok)) =
       [ExecuteActivity activityOptions ActValidateOrder,
        ExecuteChildWorkflow (childWorkflowOptions order_ok),
        ExecuteActivity
          \<lparr>StartToCloseTimeout = 15000, HeartbeatTimeout = 3000, RetryPolicy = None\<rparr>
          ActProcessOrder,
        ExecuteActivity activityOptions
          (ActNotifyCustomer ''Your expedited order has been processed successfully'')]
   \<and> \<not> expedited_profile
         \<lparr>StartToCloseTimeout = 15000, HeartbeatTimeout = 3000, RetryPolicy = None\<rparr>
   \<and> expedited_profile (validateCtx True)"
  by (simp add: OrderWorkflow_def env_expedite_during_validate_def env_all_ok_def signal_during_def
      step1_validate_def step2_payment_def step3_process_def step4_notify_def
      await_def suspend_def receive_def set_status_def GetVersion_def DefaultVersion_def
      initial_def validateCtx_def processCtx_def notifyMessage_def Let_def expedited_profile_def
      activityOptions_def)

end
